theory Spec2Isabelle
  imports Complex_Main
begin

section \<open>Strings and stored values\<close>

text \<open>
  A Python \<open>str\<close> is a sequence of Unicode code points: \<open>len\<close>, slicing and
  \<open>in\<close> all count code points, so a string is a list of code points. \<open>lit\<close> writes an
  ASCII literal of the source; literals with Arabic letters are written as their code points.
\<close>

type_synonym pystr = "nat list"

definition lit :: "string \<Rightarrow> pystr" where
  "lit s = map of_char s"

text \<open>
  A value stored in the \<open>feedback\<close> field of a message: JSON \<open>null\<close>, a string, or
  any other scalar.
\<close>

datatype pyval = PNone | PStr pystr | PInt int | PBool bool

section \<open>The session document (\<open>app/services/storage.py\<close>)\<close>

text \<open>
  A stored message is the dict \<open>{id, role, text, feedback?}\<close> that \<open>save_message\<close>
  writes; \<open>m_feedback\<close> is \<open>None\<close> when the key is absent.
\<close>

record message =
  m_id :: pystr
  m_role :: pystr
  m_text :: pystr
  m_feedback :: "pyval option"

text \<open>\<open>msg.get("feedback")\<close>: Python's \<open>None\<close> for an absent key.\<close>

definition get_feedback :: "message \<Rightarrow> pyval" where
  "get_feedback msg = (case m_feedback msg of None \<Rightarrow> PNone | Some v \<Rightarrow> v)"

text \<open>
  The statistics dict. A ratio is the quotient of two counts. Python's \<open>int / int\<close> is
  the double nearest to the exact quotient; the field holds the exact quotient, of which
  the stored double is the rounding, and the label is decided on the exact quotients,
  with \<open>3/10\<close> for the literal \<open>0.3\<close>.
\<close>

record statistics =
  positive :: nat
  negative :: nat
  null_count :: nat
  total_assistant_messages :: nat
  positive_ratio :: rat
  negative_ratio :: rat
  overall_feedback :: pystr
  last_updated :: pystr

record session_doc =
  doc_messages :: "message list option"
  message_count :: "nat option"
  feedback_statistics :: "statistics option"

text \<open>
  The messages container: one document per session id. \<open>None\<close> is the service whose
  \<open>_messages_container\<close> is \<open>None\<close> (store not available). \<open>read_item\<close> raises when
  the key is absent.
\<close>

type_synonym container = "pystr \<Rightarrow> session_doc option"
type_synonym storage = "container option"

text \<open>\<open>session_doc.get("messages", [])\<close>\<close>

definition get_messages :: "session_doc \<Rightarrow> message list" where
  "get_messages d = (case doc_messages d of None \<Rightarrow> [] | Some ms \<Rightarrow> ms)"

subsection \<open>Counting loops\<close>

text \<open>The four counters of both loops: positive, negative, null, total assistant messages.\<close>

type_synonym counters = "nat \<times> nat \<times> nat \<times> nat"

text \<open>The loop body of \<open>update_feedback_statistics\<close> (lines 293-316).\<close>

definition update_step :: "counters \<Rightarrow> message \<Rightarrow> counters" where
  "update_step c msg =
     (case c of (positive_count, negative_count, null_cnt, total_cnt) \<Rightarrow>
        if m_role msg = lit ''assistant'' then
          (let feedback = get_feedback msg;
               has_feedback_field = (m_feedback msg \<noteq> None)
           in if feedback = PStr (lit ''up'') then
                (positive_count + 1, negative_count, null_cnt, total_cnt + 1)
              else if feedback = PStr (lit ''down'') then
                (positive_count, negative_count + 1, null_cnt, total_cnt + 1)
              else if feedback = PNone \<and> has_feedback_field then
                (positive_count, negative_count, null_cnt + 1, total_cnt + 1)
              else if \<not> has_feedback_field then
                (positive_count, negative_count, null_cnt, total_cnt + 1)
              else
                (positive_count, negative_count, null_cnt + 1, total_cnt + 1))
        else c)"

text \<open>The loop body of \<open>recalculate_all_statistics\<close> (lines 434-457).\<close>

definition recalculate_step :: "counters \<Rightarrow> message \<Rightarrow> counters" where
  "recalculate_step c msg =
     (case c of (positive_count, negative_count, null_cnt, total_cnt) \<Rightarrow>
        if m_role msg = lit ''assistant'' then
          (let feedback = get_feedback msg
           in if feedback = PStr (lit ''up'') then
                (positive_count + 1, negative_count, null_cnt, total_cnt + 1)
              else if feedback = PStr (lit ''down'') then
                (positive_count, negative_count + 1, null_cnt, total_cnt + 1)
              else if feedback = PNone then
                (if m_feedback msg \<noteq> None then
                   (positive_count, negative_count, null_cnt + 1, total_cnt + 1)
                 else
                   (positive_count, negative_count, null_cnt, total_cnt + 1))
              else
                (positive_count, negative_count, null_cnt + 1, total_cnt + 1))
        else c)"

fun update_loop :: "counters \<Rightarrow> message list \<Rightarrow> counters" where
  "update_loop c [] = c"
| "update_loop c (msg # msgs) = update_loop (update_step c msg) msgs"

fun recalculate_loop :: "counters \<Rightarrow> message list \<Rightarrow> counters" where
  "recalculate_loop c [] = c"
| "recalculate_loop c (msg # msgs) = recalculate_loop (recalculate_step c msg) msgs"

subsection \<open>The statistics object\<close>

text \<open>
  Lines 320-344 and, word for word, 461-485: the label and the dict, from the four
  counters and the clock reading \<open>now\<close> (\<open>datetime.utcnow().isoformat()\<close>).
\<close>

definition overall_label :: "nat \<Rightarrow> nat \<Rightarrow> nat \<Rightarrow> pystr" where
  "overall_label positive_count negative_count total_cnt =
     (if total_cnt > 0 then
        (let p_ratio = (of_nat positive_count :: rat) / of_nat total_cnt;
             n_ratio = (of_nat negative_count :: rat) / of_nat total_cnt
         in if p_ratio > n_ratio \<and> p_ratio > 3 / 10 then lit ''positive''
            else if n_ratio > p_ratio \<and> n_ratio > 3 / 10 then lit ''negative''
            else lit ''neutral'')
      else lit ''no_feedback'')"

definition make_statistics :: "counters \<Rightarrow> pystr \<Rightarrow> statistics" where
  "make_statistics c now =
     (case c of (positive_count, negative_count, null_cnt, total_cnt) \<Rightarrow>
        \<lparr> positive = positive_count,
          negative = negative_count,
          null_count = null_cnt,
          total_assistant_messages = total_cnt,
          positive_ratio = (if total_cnt > 0 then of_nat positive_count / of_nat total_cnt else 0),
          negative_ratio = (if total_cnt > 0 then of_nat negative_count / of_nat total_cnt else 0),
          overall_feedback = overall_label positive_count negative_count total_cnt,
          last_updated = now \<rparr>)"

subsection \<open>The two statistics paths\<close>

text \<open>
  Both functions return the statistics dict, or \<open>{}\<close> (here \<open>None\<close>) when the store is
  not available or reading the session raises, and write the dict back into the session
  document. The result is the returned value and the store afterwards.
\<close>

definition update_feedback_statistics ::
    "pystr \<Rightarrow> storage \<Rightarrow> pystr \<Rightarrow> statistics option \<times> storage" where
  "update_feedback_statistics now st session_id =
     (case st of
        None \<Rightarrow> (None, st)
      | Some c \<Rightarrow>
          (case c session_id of
             None \<Rightarrow> (None, st)
           | Some session_doc \<Rightarrow>
               (let stats = make_statistics (update_loop (0, 0, 0, 0) (get_messages session_doc)) now;
                    session_doc' = session_doc\<lparr>feedback_statistics := Some stats\<rparr>
                in (Some stats, Some (c(session_id := Some session_doc'))))))"

definition recalculate_all_statistics ::
    "pystr \<Rightarrow> storage \<Rightarrow> pystr \<Rightarrow> statistics option \<times> storage" where
  "recalculate_all_statistics now st session_id =
     (case st of
        None \<Rightarrow> (None, st)
      | Some c \<Rightarrow>
          (case c session_id of
             None \<Rightarrow> (None, st)
           | Some session_doc \<Rightarrow>
               (let stats = make_statistics (recalculate_loop (0, 0, 0, 0) (get_messages session_doc)) now;
                    session_doc' = session_doc\<lparr>feedback_statistics := Some stats\<rparr>
                in (Some stats, Some (c(session_id := Some session_doc'))))))"

text \<open>
  The assistant messages that were never rated: those with no \<open>feedback\<close> key at all.
\<close>

definition never_rated :: "message list \<Rightarrow> nat" where
  "never_rated msgs =
     length (filter (\<lambda>msg. m_role msg = lit ''assistant'' \<and> m_feedback msg = None) msgs)"

subsection \<open>\<open>update_message_feedback\<close>\<close>

text \<open>
  The search loop of lines 206-223. It stops at the first message whose id is the one
  asked for: an assistant message gets the rating (\<open>Updated\<close>, with the list as it is
  then), any other role makes the function return \<open>False\<close> at once (\<open>Rejected\<close>); a
  loop that runs to the end leaves \<open>updated = False\<close> (\<open>NotFound\<close>).
\<close>

datatype scan = Updated "message list" | Rejected | NotFound

fun feedback_loop :: "pystr \<Rightarrow> pyval \<Rightarrow> message list \<Rightarrow> scan" where
  "feedback_loop message_id feedback [] = NotFound"
| "feedback_loop message_id feedback (msg # msgs) =
     (if m_id msg = message_id then
        (if m_role msg = lit ''assistant'' then
           Updated (msg\<lparr>m_feedback := Some feedback\<rparr> # msgs)
         else Rejected)
      else
        (case feedback_loop message_id feedback msgs of
           Updated msgs' \<Rightarrow> Updated (msg # msgs')
         | Rejected \<Rightarrow> Rejected
         | NotFound \<Rightarrow> NotFound))"

text \<open>
  The result is the returned boolean and the store afterwards; the store changes only
  through \<open>upsert_item\<close> on line 229.
\<close>

definition update_message_feedback ::
    "storage \<Rightarrow> pystr \<Rightarrow> pystr \<Rightarrow> pyval \<Rightarrow> bool \<times> storage" where
  "update_message_feedback st session_id message_id feedback =
     (case st of
        None \<Rightarrow> (False, st)
      | Some c \<Rightarrow>
          (case c session_id of
             None \<Rightarrow> (False, st)
           | Some session_doc \<Rightarrow>
               (case feedback_loop message_id feedback (get_messages session_doc) of
                  Updated msgs' \<Rightarrow>
                    (True, Some (c(session_id := Some (session_doc\<lparr>doc_messages := Some msgs'\<rparr>))))
                | Rejected \<Rightarrow> (False, st)
                | NotFound \<Rightarrow> (False, st))))"

text \<open>The message a feedback request targets: the first one with the given id.\<close>

definition target_message :: "pystr \<Rightarrow> message list \<Rightarrow> message option" where
  "target_message message_id msgs = find (\<lambda>msg. m_id msg = message_id) msgs"

text \<open>The list with the rating written into the first message that has the id.\<close>

fun set_feedback :: "pystr \<Rightarrow> pyval \<Rightarrow> message list \<Rightarrow> message list" where
  "set_feedback message_id feedback [] = []"
| "set_feedback message_id feedback (msg # msgs) =
     (if m_id msg = message_id then msg\<lparr>m_feedback := Some feedback\<rparr> # msgs
      else msg # set_feedback message_id feedback msgs)"

subsection \<open>\<open>save_message\<close> and \<open>get_session_messages\<close>\<close>

text \<open>
  \<open>new_id\<close> is the value of \<open>str(uuid.uuid4())\<close> and \<open>now\<close> the clock reading used by
  the statistics update. The failure value of \<open>save_message\<close> is the empty string.
  An existing session gets the message appended and, for an assistant message, its
  statistics recomputed; a session that cannot be read is created with the message as
  its only one (and no statistics).
\<close>

definition save_message ::
    "pystr \<Rightarrow> pystr \<Rightarrow> storage \<Rightarrow> pystr \<Rightarrow> pystr \<Rightarrow> pystr \<Rightarrow> pystr \<times> storage" where
  "save_message new_id now st session_id role text =
     (case st of
        None \<Rightarrow> ([], st)
      | Some c \<Rightarrow>
          (let new_message = \<lparr> m_id = new_id, m_role = role, m_text = text, m_feedback = None \<rparr>
           in case c session_id of
                Some existing_session \<Rightarrow>
                  (let msgs = get_messages existing_session @ [new_message];
                       existing_session' = existing_session
                         \<lparr> doc_messages := Some msgs, message_count := Some (length msgs) \<rparr>;
                       st' = Some (c(session_id := Some existing_session'))
                   in if role = lit ''assistant''
                      then (new_id, snd (update_feedback_statistics now st' session_id))
                      else (new_id, st'))
              | None \<Rightarrow>
                  (let session_data = \<lparr> doc_messages = Some [new_message],
                                        message_count = Some 1,
                                        feedback_statistics = None \<rparr>
                   in (new_id, Some (c(session_id := Some session_data))))))"

text \<open>
  The pydantic model \<open>Message\<close> of \<open>app/models.py\<close>. Its constructor validates the
  fields: \<open>role\<close> is \<open>Literal["user", "assistant"]\<close> and \<open>feedback\<close> is
  \<open>Optional[Literal["up", "down"]]\<close>; any other value raises a validation error
  (\<open>None\<close> here).
\<close>

record Message =
  msg_id :: pystr
  msg_role :: pystr
  msg_text :: pystr
  msg_feedback :: "pystr option"

definition Message_init :: "pystr \<Rightarrow> pystr \<Rightarrow> pystr \<Rightarrow> pyval \<Rightarrow> Message option" where
  "Message_init i r t f =
     (if r = lit ''user'' \<or> r = lit ''assistant'' then
        (if f = PNone then
           Some \<lparr> msg_id = i, msg_role = r, msg_text = t, msg_feedback = None \<rparr>
         else if f = PStr (lit ''up'') \<or> f = PStr (lit ''down'') then
           Some \<lparr> msg_id = i, msg_role = r, msg_text = t,
                  msg_feedback = (case f of PStr s \<Rightarrow> Some s | _ \<Rightarrow> None) \<rparr>
         else None)
      else None)"

text \<open>Python's \<open>xs[i:]\<close>, a negative \<open>i\<close> counting from the end.\<close>

definition slice_from :: "int \<Rightarrow> 'a list \<Rightarrow> 'a list" where
  "slice_from i xs =
     (if i < 0 then drop (nat (int (length xs) + i)) xs else drop (nat i) xs)"

text \<open>
  The conversion loop of lines 154-163; a validation error anywhere leaves the loop
  through the handler on line 167.
\<close>

fun convert_messages :: "message list \<Rightarrow> Message list option" where
  "convert_messages [] = Some []"
| "convert_messages (msg # msgs) =
     (let feedback_value = (if m_role msg = lit ''assistant'' then get_feedback msg else PNone)
      in case Message_init (m_id msg) (m_role msg) (m_text msg) feedback_value of
           None \<Rightarrow> None
         | Some m \<Rightarrow>
             (case convert_messages msgs of
                None \<Rightarrow> None
              | Some ms \<Rightarrow> Some (m # ms)))"

definition get_session_messages :: "storage \<Rightarrow> pystr \<Rightarrow> int \<Rightarrow> Message list" where
  "get_session_messages st session_id limit =
     (case st of
        None \<Rightarrow> []
      | Some c \<Rightarrow>
          (case c session_id of
             None \<Rightarrow> []
           | Some session_doc \<Rightarrow>
               (case convert_messages (slice_from (- limit) (get_messages session_doc)) of
                  None \<Rightarrow> []
                | Some message_objects \<Rightarrow> message_objects)))"

section \<open>Text operations of Python\<close>

text \<open>
  The code points for which \<open>str.isspace\<close> holds; \<open>split()\<close> and \<open>strip()\<close> without
  arguments cut at exactly these.
\<close>

definition isspace :: "nat \<Rightarrow> bool" where
  "isspace c \<longleftrightarrow>
     (9 \<le> c \<and> c \<le> 13) \<or> (28 \<le> c \<and> c \<le> 32) \<or> c = 133 \<or> c = 160 \<or> c = 5760
     \<or> (8192 \<le> c \<and> c \<le> 8202) \<or> c = 8232 \<or> c = 8233 \<or> c = 8239 \<or> c = 8287
     \<or> c = 12288"

text \<open>\<open>s.split()\<close>: the maximal runs of non-space characters; \<open>cur\<close> is the run being read.\<close>

fun split_run :: "pystr \<Rightarrow> pystr \<Rightarrow> pystr list" where
  "split_run cur [] = (if cur = [] then [] else [cur])"
| "split_run cur (c # cs) =
     (if isspace c then (if cur = [] then split_run [] cs else cur # split_run [] cs)
      else split_run (cur @ [c]) cs)"

definition py_split :: "pystr \<Rightarrow> pystr list" where
  "py_split s = split_run [] s"

definition py_strip :: "pystr \<Rightarrow> pystr" where
  "py_strip s = rev (dropWhile isspace (rev (dropWhile isspace s)))"

text \<open>\<open>sep.join(parts)\<close>\<close>

fun py_join :: "pystr \<Rightarrow> pystr list \<Rightarrow> pystr" where
  "py_join sep [] = []"
| "py_join sep [x] = x"
| "py_join sep (x # y # ys) = x @ sep @ py_join sep (y # ys)"

text \<open>\<open>w in s\<close> for two strings: \<open>w\<close> occurs in \<open>s\<close> as a contiguous run.\<close>

fun startswith :: "pystr \<Rightarrow> pystr \<Rightarrow> bool" where
  "startswith s [] = True"
| "startswith [] (w # ws) = False"
| "startswith (c # cs) (w # ws) = (c = w \<and> startswith cs ws)"

fun contains :: "pystr \<Rightarrow> pystr \<Rightarrow> bool" where
  "contains [] w = (w = [])"
| "contains (c # cs) w = (startswith (c # cs) w \<or> contains cs w)"

text \<open>\<open>str(n)\<close> for a natural number: its decimal digits.\<close>

fun str_nat :: "nat \<Rightarrow> pystr" where
  "str_nat n = (if n < 10 then [48 + n] else str_nat (n div 10) @ [48 + n mod 10])"

declare str_nat.simps [simp del]

section \<open>Context formatting (\<open>app/services/retrieval.py\<close>)\<close>

text \<open>
  A search result dict as \<open>hybrid_search\<close> builds it; a field is \<open>None\<close> when the key is
  absent, which is what the \<open>.get\<close> defaults of the readers are for. The score is a
  double of the search service, written as the rational number that it is.
\<close>

record search_doc =
  d_title :: "pystr option"
  d_url :: "pystr option"
  d_summary :: "pystr option"
  d_content :: "pystr option"
  d_score :: "rat option"

text \<open>\<open>doc.get("content", doc.get("summary", ""))\<close>\<close>

definition doc_content :: "search_doc \<Rightarrow> pystr" where
  "doc_content doc =
     (case d_content doc of
        Some c \<Rightarrow> c
      | None \<Rightarrow> (case d_summary doc of Some s \<Rightarrow> s | None \<Rightarrow> []))"

definition chunk_words :: "search_doc \<Rightarrow> int" where
  "chunk_words doc = int (length (py_split (doc_content doc)))"

text \<open>
  The loop of lines 84-95, with the ordinal \<open>i\<close> and the running \<open>token_count\<close>: it
  yields the results appended to \<open>context_parts\<close>, each with its ordinal, and stops at
  the first result that would take the count over \<open>max_tokens\<close>.
\<close>

fun context_loop :: "int \<Rightarrow> nat \<Rightarrow> int \<Rightarrow> search_doc list \<Rightarrow> (nat \<times> search_doc) list" where
  "context_loop max_tokens i token_count [] = []"
| "context_loop max_tokens i token_count (doc # docs) =
     (if token_count + chunk_words doc > max_tokens then []
      else (i, doc) # context_loop max_tokens (i + 1) (token_count + chunk_words doc) docs)"

text \<open>The f-string of line 94: \<open>[i] title\<close>, the content, \<open>Source: url\<close>, each on a line.\<close>

definition context_part :: "nat \<times> search_doc \<Rightarrow> pystr" where
  "context_part p =
     (case p of (i, doc) \<Rightarrow>
        lit ''['' @ str_nat i @ lit ''] ''
          @ (case d_title doc of Some t \<Rightarrow> t | None \<Rightarrow> lit ''Unknown'') @ [10]
          @ doc_content doc @ [10]
          @ lit ''Source: '' @ (case d_url doc of Some u \<Rightarrow> u | None \<Rightarrow> []) @ [10])"

definition format_context_for_llm :: "search_doc list \<Rightarrow> int \<Rightarrow> pystr" where
  "format_context_for_llm search_results max_tokens =
     (if search_results = [] then lit ''No relevant information found.''
      else py_join [10] (map context_part (context_loop max_tokens 1 0 search_results)))"

text \<open>The results that \<open>format_context_for_llm\<close> puts into the context, in its order.\<close>

definition included :: "search_doc list \<Rightarrow> int \<Rightarrow> search_doc list" where
  "included search_results max_tokens = map snd (context_loop max_tokens 1 0 search_results)"

section \<open>The chat service (\<open>app/services/chat.py\<close>)\<close>

text \<open>
  Two operations on strings depend on the Unicode character database: \<open>str.lower\<close> and
  \<open>str.isalpha\<close>. They are parameters of the model.
\<close>

record unicode =
  u_lower :: "pystr \<Rightarrow> pystr"
  u_isalpha :: "nat \<Rightarrow> bool"

subsection \<open>Scope classification\<close>

text \<open>The greeting and small-talk patterns of \<open>is_basic_conversation\<close> (lines 23-53).\<close>

definition basic_patterns :: "pystr list" where
  "basic_patterns =
     [[1605, 1585, 1581, 1576, 1575], [1571, 1607, 1604, 1575],
      [1575, 1604, 1587, 1604, 1575, 1605],
      [1575, 1604, 1587, 1604, 1575, 1605, 32, 1593, 1604, 1610, 1603, 1605],
      [1605, 1585, 1581, 1576, 1575, 32, 1576, 1603],
      [1605, 1585, 1581, 1576, 1575, 32, 1608, 1587, 1607, 1604, 1575],
      [1571, 1607, 1604, 1575, 32, 1608, 1587, 1607, 1604, 1575],
      [1605, 1585, 1581, 1576, 1575, 32, 1576, 1603], [1571, 1607, 1604, 1575, 32, 1576, 1603],
      [1589, 1576, 1575, 1581, 32, 1575, 1604, 1582, 1610, 1585],
      [1605, 1587, 1575, 1569, 32, 1575, 1604, 1582, 1610, 1585],
      [1605, 1587, 1575, 1569, 32, 1575, 1604, 1606, 1608, 1585],
      [1603, 1610, 1601, 32, 1581, 1575, 1604, 1603], [1603, 1610, 1601, 32, 1571, 1606, 1578],
      [1603, 1610, 1601, 32, 1575, 1604, 1581, 1575, 1604],
      [1571, 1582, 1576, 1575, 1585, 1603], [1603, 1610, 1601, 1603],
      [1603, 1610, 1601, 32, 1581, 1575, 1604, 1603], [1603, 1610, 1601, 32, 1571, 1606, 1578],
      [1603, 1610, 1601, 32, 1575, 1604, 1581, 1575, 1604],
      [1571, 1582, 1576, 1575, 1585, 1603, 32, 1573, 1610, 1607],
      [1571, 1582, 1576, 1575, 1585, 1603, 32, 1603, 1610, 1601],
      [1571, 1582, 1576, 1575, 1585, 1603, 32, 1588, 1604, 1608, 1606],
      [1605, 1575, 1584, 1575, 32, 1578, 1601, 1593, 1604],
      [1605, 1575, 32, 1593, 1605, 1604, 1603],
      [1605, 1575, 32, 1575, 1604, 1584, 1610, 32, 1578, 1601, 1593, 1604, 1607],
      [1588, 1608, 32, 1578, 1593, 1605, 1604], [1588, 1608, 32, 1578, 1587, 1608, 1610],
      [1588, 1608, 32, 1593, 1605, 32, 1578, 1593, 1605, 1604],
      [1573, 1610, 1588, 32, 1578, 1593, 1605, 1604],
      [1573, 1610, 1588, 32, 1578, 1587, 1608, 1610],
      [1573, 1610, 1588, 32, 1593, 1605, 32, 1578, 1593, 1605, 1604], [1588, 1603, 1585, 1575],
      [1588, 1603, 1585, 1575, 32, 1604, 1603], [1605, 1578, 1588, 1603, 1585],
      [1605, 1578, 1588, 1603, 1585, 1577],
      [1588, 1603, 1585, 1575, 32, 1580, 1586, 1610, 1604, 1575],
      [1588, 1603, 1585, 1575, 32, 1603, 1579, 1610, 1585],
      [1588, 1603, 1585, 1575, 32, 1603, 1578, 1610, 1585],
      [1575, 1604, 1604, 1607, 32, 1610, 1593, 1591, 1610, 1603, 32, 1575, 1604, 1593, 1575, 1601, 1610, 1577],
      [1575, 1604, 1604, 1607, 32, 1610, 1576, 1575, 1585, 1603, 32, 1601, 1610, 1603],
      [1605, 1606, 32, 1571, 1606, 1578], [1605, 1575, 32, 1575, 1587, 1605, 1603],
      [1605, 1606, 32, 1578, 1603, 1608, 1606], [1588, 1608, 32, 1575, 1587, 1605, 1603],
      [1573, 1610, 1588, 32, 1575, 1587, 1605, 1603], [1588, 1608, 32, 1575, 1606, 1578],
      [1605, 1606, 32, 1575, 1606, 1578], [1573, 1610, 1588, 32, 1575, 1606, 1578],
      [1588, 1608, 32, 1607, 1608, 1610, 1578, 1603],
      [1605, 1575, 1584, 1575, 32, 1578, 1593, 1585, 1601],
      [1605, 1575, 1584, 1575, 32, 1578, 1601, 1607, 1605],
      [1605, 1575, 32, 1602, 1583, 1585, 1575, 1578, 1603],
      [1588, 1608, 32, 1578, 1593, 1585, 1601], [1573, 1610, 1588, 32, 1578, 1593, 1585, 1601],
      [1588, 1608, 32, 1578, 1602, 1583, 1585], [1573, 1610, 1588, 32, 1578, 1602, 1583, 1585],
      [1588, 1608, 32, 1578, 1593, 1585, 1601, 32, 1578, 1593, 1605, 1604],
      [1573, 1610, 1588, 32, 1578, 1593, 1585, 1601, 32, 1578, 1593, 1605, 1604]]"

definition is_basic_conversation :: "unicode \<Rightarrow> pystr \<Rightarrow> bool" where
  "is_basic_conversation u query =
     (let query_lower = py_strip (u_lower u query)
      in list_ex (\<lambda>pattern. contains query_lower pattern) basic_patterns)"

text \<open>The term tables of \<open>is_doha_magazine_related\<close> (lines 283-315).\<close>

definition doha_terms :: "pystr list" where
  "doha_terms =
     [[1583, 1608, 1581, 1577], lit ''doha'', [1605, 1580, 1604, 1577], lit ''magazine'',
      [1605, 1580, 1604, 1577, 32, 1575, 1604, 1583, 1608, 1581, 1577], lit ''doha magazine'',
      [1579, 1602, 1575, 1601, 1610], lit ''cultural'', [1571, 1583, 1576, 1610],
      lit ''literary'', [1579, 1602, 1575, 1601, 1577], lit ''culture'', [1571, 1583, 1576],
      lit ''literature'']"

definition article_terms :: "pystr list" where
  "article_terms =
     [[1605, 1602, 1575, 1604, 1575, 1578], lit ''articles'', [1605, 1602, 1575, 1604],
      lit ''article'', [1571, 1581, 1583, 1579], lit ''latest'', [1580, 1583, 1610, 1583],
      lit ''new'', [1581, 1583, 1610, 1579], lit ''recent'', [1605, 1572, 1582, 1585],
      lit ''recently'', [1605, 1581, 1578, 1608, 1609], lit ''content'', [1606, 1588, 1585],
      lit ''published'', [1571, 1582, 1576, 1575, 1585], lit ''news'',
      [1605, 1608, 1590, 1608, 1593], lit ''topic'', [1605, 1608, 1575, 1590, 1610, 1593],
      lit ''topics'']"

definition cultural_terms :: "pystr list" where
  "cultural_terms =
     [[1588, 1593, 1585], lit ''poetry'', [1588, 1575, 1593, 1585], lit ''poet'',
      [1585, 1608, 1575, 1610, 1577], lit ''novel'', [1602, 1589, 1577], lit ''story'',
      [1601, 1606], lit ''art'', [1601, 1606, 1575, 1606], lit ''artist'',
      [1603, 1578, 1575, 1576], lit ''book'', [1603, 1575, 1578, 1576], lit ''writer'',
      [1606, 1602, 1583], lit ''criticism'', [1606, 1575, 1602, 1583], lit ''critic'',
      [1583, 1585, 1575, 1587, 1577], lit ''study'', [1576, 1581, 1579], lit ''research'']"

definition basic_conversation :: "pystr list" where
  "basic_conversation =
     [[1605, 1585, 1581, 1576, 1575], lit ''hello'', [1571, 1607, 1604, 1575], lit ''hi'',
      [1603, 1610, 1601, 32, 1581, 1575, 1604, 1603], lit ''how are you'',
      [1605, 1575, 1584, 1575, 32, 1578, 1601, 1593, 1604], lit ''what do you do'',
      [1605, 1606, 32, 1571, 1606, 1578], lit ''who are you'']"

text \<open>The pydantic model \<open>Source\<close>.\<close>

record Source =
  s_title :: pystr
  s_url :: pystr
  s_content :: "pystr option"
  s_score :: "rat option"

definition is_doha_magazine_related :: "unicode \<Rightarrow> pystr \<Rightarrow> Source list \<Rightarrow> bool" where
  "is_doha_magazine_related u query retrieved_sources =
     (let query_lower = py_strip (u_lower u query)
      in if retrieved_sources \<noteq> [] \<and> length retrieved_sources > 0 then True
         else if list_ex (\<lambda>term. contains query_lower term) doha_terms then True
         else if list_ex (\<lambda>term. contains query_lower term) article_terms then True
         else if list_ex (\<lambda>term. contains query_lower term) cultural_terms then True
         else if list_ex (\<lambda>term. contains query_lower term) basic_conversation then True
         else False)"

text \<open>
  \<open>is_arabic_text\<close> (lines 206-222): the characters of the block U+0600..U+06FF are
  counted against the alphabetic characters; the quotient is exact here.
\<close>

definition arabic_chars :: "pystr \<Rightarrow> nat" where
  "arabic_chars text = length (filter (\<lambda>char. 1536 \<le> char \<and> char \<le> 1791) text)"

definition total_chars :: "unicode \<Rightarrow> pystr \<Rightarrow> nat" where
  "total_chars u text = length (filter (u_isalpha u) text)"

definition is_arabic_text :: "unicode \<Rightarrow> pystr \<Rightarrow> bool" where
  "is_arabic_text u text =
     (if text = [] then False
      else if total_chars u text = 0 then False
      else (of_nat (arabic_chars text) :: rat) / of_nat (total_chars u text) > 1 / 2)"

subsection \<open>Conversation memory\<close>

text \<open>A history entry, the dict \<open>{"role": ..., "text": ...}\<close> built on lines 473-476.\<close>

record hist_entry =
  h_role :: pystr
  h_text :: pystr

definition reference_words :: "pystr list" where
  "reference_words =
     [lit ''he'', lit ''she'', lit ''it'', lit ''they'', lit ''that'', lit ''this'',
      lit ''those'', [1607, 1608], [1607, 1610], [1607, 1584, 1575], [1607, 1584, 1607],
      [1584, 1604, 1603], [1578, 1604, 1603], [1606, 1601, 1587], lit ''same'', lit ''also'',
      lit ''too'', lit ''more'', lit ''other'']"

text \<open>\<open>enhance_query_with_context\<close> (lines 396-434).\<close>

definition enhance_query_with_context :: "unicode \<Rightarrow> pystr \<Rightarrow> hist_entry list \<Rightarrow> pystr" where
  "enhance_query_with_context u current_query conversation_history =
     (if conversation_history = [] \<or> length conversation_history < 2 then current_query
      else
        (let query_lower = u_lower u current_query;
             has_reference = list_ex (\<lambda>word. contains query_lower word) reference_words
         in if has_reference \<or> length (py_split current_query) < 5 then
              (let recent_context =
                     map h_text (filter (\<lambda>msg. h_role msg = lit ''user'')
                       (slice_from (- 4) conversation_history))
               in if recent_context \<noteq> [] then
                    take 500 (py_join [32] (slice_from (- 1) recent_context) @ [32] @ current_query)
                  else current_query)
            else current_query))"

text \<open>\<open>build_conversation_history\<close> (lines 368-393).\<close>

definition build_conversation_history :: "storage \<Rightarrow> pystr \<Rightarrow> int \<Rightarrow> pystr" where
  "build_conversation_history st session_id max_turns =
     (let messages = get_session_messages st session_id (max_turns * 2)
      in if messages = [] then []
         else py_join [10]
                (lit ''Conversation History:'' #
                   map (\<lambda>msg. (if msg_role msg = lit ''user'' then lit ''User'' else lit ''Assistant'')
                                @ lit '': '' @ msg_text msg)
                       (rev messages))
              @ [10])"

subsection \<open>The collaborators of \<open>generate_chat_response\<close>\<close>

text \<open>
  What the function calls outside this service, as parameters:
  \<^item> \<open>hybrid_search query top_k\<close> either raises (\<open>Inl\<close>, with the text \<open>str(e)\<close> of the
    exception) or returns the result dicts in the index's ranking order;
  \<^item> the three rewriting passes of step 2.5 (\<open>normalize_query\<close>, \<open>add_dialect_support\<close>,
    \<open>enhance_query_flexibility\<close>), which are pure functions from strings to strings and
    only shape the query handed to the search;
  \<^item> \<open>system_prompt history context question\<close>, the filled-in \<open>SYSTEM_PROMPT\<close>;
  \<^item> \<open>chat_completion attempt messages\<close>, the call to the language model at the given
    attempt: it raises (\<open>Inl\<close>, with \<open>str(e)\<close>) or returns the content of the first choice;
  \<^item> \<open>strip_citations\<close>, the five \<open>re.sub\<close> calls and the final \<open>strip\<close> of lines 599-604;
  \<^item> \<open>uuid4 n\<close>, the values of \<open>str(uuid.uuid4())\<close> by place of call: \<open>0\<close> for a new
    session id, \<open>1\<close> and \<open>2\<close> for the first and the second \<open>save_message\<close> of a request;
  \<^item> \<open>utcnow\<close>, the clock reading;
  \<^item> the double arithmetic of line 513: \<open>float_sum\<close> is the built-in \<open>sum\<close> over the
    scores and \<open>float_div x n\<close> the division of a double by a length, each with the
    rounding of the interpreter. A double is written as the rational number that it is.
\<close>

record env =
  unicode_tables :: unicode
  hybrid_search :: "pystr \<Rightarrow> nat \<Rightarrow> pystr + search_doc list"
  normalize_query :: "pystr \<Rightarrow> pystr"
  add_dialect_support :: "pystr \<Rightarrow> pystr"
  enhance_query_flexibility :: "pystr \<Rightarrow> pystr"
  system_prompt :: "pystr \<Rightarrow> pystr \<Rightarrow> pystr \<Rightarrow> pystr"
  chat_completion :: "nat \<Rightarrow> (pystr \<times> pystr) list \<Rightarrow> pystr + pystr"
  strip_citations :: "pystr \<Rightarrow> pystr"
  uuid4 :: "nat \<Rightarrow> pystr"
  utcnow :: pystr
  float_sum :: "rat list \<Rightarrow> rat"
  float_div :: "rat \<Rightarrow> nat \<Rightarrow> rat"

text \<open>The settings of \<open>app/deps.py\<close> that the function reads.\<close>

definition RETRIEVAL_TOP_K :: nat where
  "RETRIEVAL_TOP_K = 8"

definition MAX_TOKENS_CONTEXT :: int where
  "MAX_TOKENS_CONTEXT = 1200"

subsection \<open>The fixed answers\<close>

text \<open>The redirect of line 518, the decline of line 536 and the two fallbacks of step 6.\<close>

definition english_response :: pystr where
  "english_response =
     [1571, 1607, 1604, 1575, 1611, 32, 1608, 1587, 1607, 1604, 1575, 1611, 33, 32, 1571, 1606,
      1575, 32, 1605, 1587, 1575, 1593, 1583, 32, 1605, 1578, 1582, 1589, 1589, 32, 1601, 1610,
      32, 1605, 1581, 1578, 1608, 1609, 32, 1605, 1580, 1604, 1577, 32, 1575, 1604, 1583, 1608,
      1581, 1577, 46, 32, 1571, 1578, 1581, 1583, 1579, 32, 1575, 1604, 1593, 1585, 1576, 1610,
      1577, 32, 1601, 1602, 1591, 1548, 32, 1610, 1585, 1580, 1609, 32, 1575, 1604, 1603, 1578,
      1575, 1576, 1577, 32, 1576, 1575, 1604, 1604, 1594, 1577, 32, 1575, 1604, 1593, 1585,
      1576, 1610, 1577, 32, 1604, 1604, 1575, 1587, 1578, 1601, 1575, 1583, 1577, 32, 1605,
      1606, 32, 1582, 1583, 1605, 1575, 1578, 1610, 32, 1576, 1588, 1603, 1604, 32, 1571, 1601,
      1590, 1604, 46, 32, 1588, 1603, 1585, 1575, 1611, 32, 1604, 1603, 33]"

definition decline_message :: pystr where
  "decline_message =
     [1593, 1584, 1585, 1575, 1611, 1548, 32, 1571, 1606, 1575, 32, 1605, 1587, 1575, 1593,
      1583, 32, 1605, 1578, 1582, 1589, 1589, 32, 1601, 1610, 32, 1605, 1581, 1578, 1608, 1609,
      32, 1605, 1580, 1604, 1577, 32, 1575, 1604, 1583, 1608, 1581, 1577, 32, 1601, 1602, 1591,
      46, 32, 1604, 1575, 32, 1571, 1587, 1578, 1591, 1610, 1593, 32, 1575, 1604, 1573, 1580,
      1575, 1576, 1577, 32, 1593, 1604, 1609, 32, 1571, 1587, 1574, 1604, 1577, 32, 1582, 1575,
      1585, 1580, 32, 1606, 1591, 1575, 1602, 32, 1575, 1604, 1605, 1581, 1578, 1608, 1609, 32,
      1575, 1604, 1605, 1578, 1575, 1581, 32, 1601, 1610, 32, 1575, 1604, 1605, 1580, 1604,
      1577, 46]"

definition rate_limit_answer :: pystr where
  "rate_limit_answer =
     [1593, 1584, 1585, 1575, 1611, 1548, 32, 1578, 1605, 32, 1578, 1580, 1575, 1608, 1586, 32,
      1575, 1604, 1581, 1583, 32, 1575, 1604, 1605, 1587, 1605, 1608, 1581, 32, 1605, 1606, 32,
      1575, 1604, 1591, 1604, 1576, 1575, 1578, 46, 32, 1610, 1585, 1580, 1609, 32, 1575, 1604,
      1605, 1581, 1575, 1608, 1604, 1577, 32, 1605, 1585, 1577, 32, 1571, 1582, 1585, 1609, 32,
      1576, 1593, 1583, 32, 1602, 1604, 1610, 1604, 46, 10, 10, 83, 111, 114, 114, 121, 44, 32,
      114, 97, 116, 101, 32, 108, 105, 109, 105, 116, 32, 101, 120, 99, 101, 101, 100, 101,
      100, 46, 32, 80, 108, 101, 97, 115, 101, 32, 116, 114, 121, 32, 97, 103, 97, 105, 110,
      32, 105, 110, 32, 97, 32, 102, 101, 119, 32, 109, 111, 109, 101, 110, 116, 115, 46]"

definition error_answer :: pystr where
  "error_answer =
     [1593, 1584, 1585, 1575, 1611, 1548, 32, 1581, 1583, 1579, 32, 1582, 1591, 1571, 32, 1601,
      1610, 32, 1605, 1593, 1575, 1604, 1580, 1577, 32, 1591, 1604, 1576, 1603, 46, 32, 1575,
      1604, 1585, 1580, 1575, 1569, 32, 1575, 1604, 1605, 1581, 1575, 1608, 1604, 1577, 32,
      1605, 1585, 1577, 32, 1571, 1582, 1585, 1609, 46, 10, 10, 83, 111, 114, 114, 121, 44, 32,
      97, 110, 32, 101, 114, 114, 111, 114, 32, 111, 99, 99, 117, 114, 114, 101, 100, 32, 119,
      104, 105, 108, 101, 32, 112, 114, 111, 99, 101, 115, 115, 105, 110, 103, 32, 121, 111,
      117, 114, 32, 114, 101, 113, 117, 101, 115, 116, 46, 32, 80, 108, 101, 97, 115, 101, 32,
      116, 114, 121, 32, 97, 103, 97, 105, 110, 46]"

text \<open>The phrases by which the answer says that it cannot answer (lines 650-657).\<close>

definition unanswered_indicators :: "pystr list" where
  "unanswered_indicators =
     [[1593, 1584, 1585, 1575, 1611, 1548, 32, 1604, 1575, 32, 1571, 1580, 1583, 32, 1605, 1593, 1604, 1608, 1605, 1575, 1578],
      [1604, 1575, 32, 1571, 1587, 1578, 1591, 1610, 1593, 32, 1575, 1604, 1573, 1580, 1575, 1576, 1577],
      [1604, 1575, 32, 1578, 1608, 1580, 1583, 32, 1605, 1593, 1604, 1608, 1605, 1575, 1578],
      [1594, 1610, 1585, 32, 1605, 1578, 1608, 1601, 1585],
      [1604, 1575, 32, 1610, 1608, 1580, 1583],
      [1593, 1584, 1585, 1575, 1611, 1548, 32, 1604, 1575, 32, 1571, 1580, 1583, 32, 1605, 1593, 1604, 1608, 1605, 1575, 1578, 32, 1603, 1575, 1601, 1610, 1577, 32, 1601, 1610, 32, 1605, 1581, 1578, 1608, 1609, 32, 1605, 1580, 1604, 1577, 32, 1575, 1604, 1583, 1608, 1581, 1577]]"

subsection \<open>Answer generation with retry (step 6)\<close>

datatype attempt_result = Answered pystr | Retry

definition llm_attempt :: "env \<Rightarrow> (pystr \<times> pystr) list \<Rightarrow> nat \<Rightarrow> nat \<Rightarrow> attempt_result" where
  "llm_attempt e messages_for_llm max_retries attempt =
     (case chat_completion e attempt messages_for_llm of
        Inr content \<Rightarrow> Answered (strip_citations e (py_strip content))
      | Inl err \<Rightarrow>
          (let error_msg = u_lower (unicode_tables e) err
           in if contains error_msg (lit ''rate limit'')
                 \<or> contains error_msg (lit ''too many requests'') then
                (if int attempt < int max_retries - 1 then Retry
                 else Answered rate_limit_answer)
              else Answered error_answer))"

text \<open>
  The \<open>for\<close> loop over \<open>range(max_retries)\<close>. A loop that ends without \<open>break\<close> leaves
  \<open>answer\<close> unbound (\<open>None\<close>).
\<close>

fun llm_loop :: "env \<Rightarrow> (pystr \<times> pystr) list \<Rightarrow> nat \<Rightarrow> nat list \<Rightarrow> pystr option" where
  "llm_loop e messages_for_llm max_retries [] = None"
| "llm_loop e messages_for_llm max_retries (attempt # rest) =
     (case llm_attempt e messages_for_llm max_retries attempt of
        Answered answer \<Rightarrow> Some answer
      | Retry \<Rightarrow> llm_loop e messages_for_llm max_retries rest)"

subsection \<open>Sources and the unanswered-question log\<close>

text \<open>Step 7: the first four results, one source per distinct non-empty url.\<close>

fun extract_sources :: "pystr list \<Rightarrow> search_doc list \<Rightarrow> Source list" where
  "extract_sources seen_urls [] = []"
| "extract_sources seen_urls (result # results) =
     (let url = (case d_url result of Some x \<Rightarrow> x | None \<Rightarrow> [])
      in if url \<noteq> [] \<and> url \<notin> set seen_urls then
           \<lparr> s_title = (case d_title result of Some t \<Rightarrow> t | None \<Rightarrow> []),
             s_url = url, s_content = None, s_score = d_score result \<rparr>
             # extract_sources (url # seen_urls) results
         else extract_sources seen_urls results)"

text \<open>The \<open>Source\<close> objects of line 508.\<close>

definition source_for_check :: "search_doc \<Rightarrow> Source" where
  "source_for_check r =
     \<lparr> s_title = (case d_title r of Some t \<Rightarrow> t | None \<Rightarrow> []),
       s_url = (case d_url r of Some x \<Rightarrow> x | None \<Rightarrow> []),
       s_content = Some (case d_content r of Some c \<Rightarrow> c | None \<Rightarrow> []),
       s_score = Some (case d_score r of Some x \<Rightarrow> x | None \<Rightarrow> 0) \<rparr>"

text \<open>Line 513: the mean of the scores in double arithmetic, \<open>0\<close> for no results.\<close>

definition average_score :: "env \<Rightarrow> search_doc list \<Rightarrow> rat" where
  "average_score e search_results =
     (if search_results \<noteq> [] then
        float_div e
          (float_sum e (map (\<lambda>r. case d_score r of Some x \<Rightarrow> x | None \<Rightarrow> 0) search_results))
          (length search_results)
      else 0)"

text \<open>The double that the literal \<open>0.3\<close> denotes: \<open>5404319552844595 / 2^54\<close>.\<close>

definition double_03 :: rat where
  "double_03 = 5404319552844595 / 18014398509481984"

text \<open>
  Lines 693-700. \<open>search_error\<close> is \<open>None\<close> or the text of the exception, and the test
  \<open>if search_error\<close> holds for a text that is not empty.
\<close>

definition truthy :: "pystr option \<Rightarrow> bool" where
  "truthy x = (case x of None \<Rightarrow> False | Some s \<Rightarrow> s \<noteq> [])"

definition log_reason :: "pystr option \<Rightarrow> bool \<Rightarrow> rat \<Rightarrow> pystr" where
  "log_reason search_error has_results avg_score =
     (if truthy search_error then lit ''search_error''
      else if \<not> has_results then lit ''no_results''
      else if avg_score < double_03 then lit ''low_score''
      else lit ''insufficient_information'')"

text \<open>An entry handed to \<open>log_unanswered_question\<close>, with the metadata of lines 682-690.\<close>

record log_entry =
  l_question :: pystr
  l_session_id :: pystr
  l_reason :: pystr
  l_avg_score :: rat
  l_retrieval_count :: nat
  l_enhanced_query :: pystr
  l_has_sources :: bool
  l_search_error :: "pystr option"

text \<open>\<open>s.isspace()\<close>: a non-empty string of space characters only.\<close>

definition py_isspace :: "pystr \<Rightarrow> bool" where
  "py_isspace s = (s \<noteq> [] \<and> list_all isspace s)"

subsection \<open>\<open>generate_chat_response\<close>\<close>

text \<open>
  What a call leaves behind: the returned tuple, the store afterwards, the entries handed
  to \<open>log_unanswered_question\<close>, the queries handed to \<open>hybrid_search\<close>, and the
  \<open>return\<close> statement that ended the call (line 520, 538 or 706).
\<close>

datatype return_point = Redirect | Decline | Final

record outcome =
  o_answer :: pystr
  o_sources :: "Source list"
  o_session_id :: pystr
  o_message_id :: pystr
  o_storage :: storage
  o_logged :: "log_entry list"
  o_searched :: "pystr list"
  o_return :: return_point

text \<open>
  Lines 540-706, from saving the user message on: \<open>search_results\<close>, \<open>has_results\<close>,
  \<open>avg_score\<close> and \<open>is_related\<close> are the values after the greeting branch. An unbound
  \<open>answer\<close> is the only exception of this part (\<open>None\<close>).
\<close>

definition answer_and_log ::
    "env \<Rightarrow> storage \<Rightarrow> pystr \<Rightarrow> pystr \<Rightarrow> bool \<Rightarrow> pystr \<Rightarrow> hist_entry list \<Rightarrow> pystr \<Rightarrow> pystr
       \<Rightarrow> search_doc list \<Rightarrow> pystr option \<Rightarrow> bool \<Rightarrow> rat \<Rightarrow> bool \<Rightarrow> bool \<Rightarrow> outcome option" where
  "answer_and_log e st message session_id is_new_session conversation_history_text history_dicts
       enhanced_query normalized_query search_results search_error has_results avg_score
       is_related is_basic_greeting =
     (let st1 = snd (save_message (uuid4 e 1) (utcnow e) st session_id (lit ''user'') message);
          context = format_context_for_llm search_results MAX_TOKENS_CONTEXT;
          messages_for_llm =
            (if is_new_session then
               [(lit ''system'', system_prompt e [] context message), (lit ''user'', message)]
             else
               [(lit ''system'', system_prompt e conversation_history_text context message)]
               @ map (\<lambda>hist_msg.
                        (if h_role hist_msg = lit ''user'' then lit ''user'' else lit ''assistant'',
                         take 500 (h_text hist_msg)))
                     (slice_from (- 6) history_dicts)
               @ [(lit ''user'', message)])
      in case llm_loop e messages_for_llm 3 [0 ..< 3] of
           None \<Rightarrow> None
         | Some answer \<Rightarrow>
             (let sources = extract_sources [] (take 4 search_results);
                  llm_says_cant_answer =
                    list_ex (\<lambda>indicator. contains answer indicator) unanswered_indicators;
                  question_is_valid =
                    (message \<noteq> [] \<and> length (py_strip message) > 3
                       \<and> \<not> py_isspace (py_strip message));
                  bot_provided_answer =
                    (length sources > 0
                       \<or> (length (py_strip answer) > 50 \<and> \<not> llm_says_cant_answer));
                  should_log =
                    (is_related \<and> \<not> is_basic_greeting \<and> question_is_valid
                       \<and> llm_says_cant_answer \<and> \<not> bot_provided_answer);
                  logged =
                    (if should_log then
                       [\<lparr> l_question = message, l_session_id = session_id,
                          l_reason = log_reason search_error has_results avg_score,
                          l_avg_score = avg_score,
                          l_retrieval_count = length search_results,
                          l_enhanced_query = enhanced_query,
                          l_has_sources = (length sources > 0),
                          l_search_error = search_error \<rparr>]
                     else []);
                  saved = save_message (uuid4 e 2) (utcnow e) st1 session_id (lit ''assistant'') answer
              in Some \<lparr> o_answer = answer, o_sources = sources, o_session_id = session_id,
                        o_message_id = fst saved, o_storage = snd saved, o_logged = logged,
                        o_searched = [normalized_query], o_return = Final \<rparr>))"

text \<open>
  Lines 454-538 and the hand-over to the rest. \<open>session_id\<close> is \<open>None\<close> for Python's
  \<open>None\<close>. The search of step 3 runs before the language test of step 3.6 and before the
  greeting test of step 3.7, as in the source. Two values that the source computes and
  never reads (\<open>low_score\<close> and \<open>is_general_article\<close>) are left out.
\<close>

definition generate_chat_response ::
    "env \<Rightarrow> storage \<Rightarrow> pystr \<Rightarrow> pystr option \<Rightarrow> outcome option" where
  "generate_chat_response e st message session_id_arg =
     (let u = unicode_tables e;
          is_new_session =
            (case session_id_arg of None \<Rightarrow> True | Some sid \<Rightarrow> sid = [] \<or> py_strip sid = []);
          session_id =
            (case session_id_arg of
               None \<Rightarrow> uuid4 e 0
             | Some sid \<Rightarrow> if is_new_session then uuid4 e 0 else sid);
          previous_messages =
            (if is_new_session then [] else get_session_messages st session_id 10);
          conversation_history_text =
            (if is_new_session then [] else build_conversation_history st session_id 5);
          history_dicts =
            (if is_new_session then []
             else map (\<lambda>msg. \<lparr> h_role = msg_role msg, h_text = msg_text msg \<rparr>)
                    (rev previous_messages));
          enhanced_query =
            (if is_new_session \<or> length history_dicts = 0 then message
             else enhance_query_with_context u message history_dicts);
          normalized_query =
            (if is_new_session \<and> length (py_split enhanced_query) \<le> 10 then
               normalize_query e enhanced_query
             else
               normalize_query e (enhance_query_flexibility e (add_dialect_support e enhanced_query)));
          found = hybrid_search e normalized_query RETRIEVAL_TOP_K;
          search_results = (case found of Inl err \<Rightarrow> [] | Inr results \<Rightarrow> results);
          search_error = (case found of Inl err \<Rightarrow> Some err | Inr results \<Rightarrow> None);
          sources_for_check = map source_for_check search_results;
          is_related = is_doha_magazine_related u enhanced_query sources_for_check;
          has_results = (length search_results > 0);
          avg_score = average_score e search_results
      in if \<not> is_arabic_text u message then
           (let saved = save_message (uuid4 e 1) (utcnow e) st session_id (lit ''assistant'')
                          english_response
            in Some \<lparr> o_answer = english_response, o_sources = [], o_session_id = session_id,
                      o_message_id = fst saved, o_storage = snd saved, o_logged = [],
                      o_searched = [normalized_query], o_return = Redirect \<rparr>)
         else
           (let is_basic_greeting = is_basic_conversation u message
            in if is_basic_greeting then
                 answer_and_log e st message session_id is_new_session conversation_history_text
                   history_dicts enhanced_query normalized_query [] search_error False 0 True
                   is_basic_greeting
               else if \<not> is_related \<and> has_results then
                 (let saved = save_message (uuid4 e 1) (utcnow e) st session_id (lit ''assistant'')
                                decline_message
                  in Some \<lparr> o_answer = decline_message, o_sources = [], o_session_id = session_id,
                            o_message_id = fst saved, o_storage = snd saved, o_logged = [],
                            o_searched = [normalized_query], o_return = Decline \<rparr>)
               else
                 answer_and_log e st message session_id is_new_session conversation_history_text
                   history_dicts enhanced_query normalized_query search_results search_error
                   has_results avg_score is_related is_basic_greeting))"

text \<open>
  Unicode tables for the examples: lower-casing and letters as Python has them on ASCII
  and on the Arabic letters U+0621..U+064A.
\<close>

definition sample_unicode :: unicode where
  "sample_unicode =
     \<lparr> u_lower = map (\<lambda>c. if 65 \<le> c \<and> c \<le> 90 then c + 32 else c),
       u_isalpha = (\<lambda>c. (65 \<le> c \<and> c \<le> 90) \<or> (97 \<le> c \<and> c \<le> 122) \<or> (1569 \<le> c \<and> c \<le> 1610)) \<rparr>"

text \<open>
  Collaborators for the examples: the search returns \<open>found\<close> for every query, the
  rewriting passes and the citation stripping change nothing, the model answers
  \<open>reply\<close> at the first attempt, and sums and quotients are exact (the examples have no
  scores to add).
\<close>

definition sample_env :: "(pystr + search_doc list) \<Rightarrow> pystr \<Rightarrow> env" where
  "sample_env found reply =
     \<lparr> unicode_tables = sample_unicode,
       hybrid_search = (\<lambda>query top_k. found),
       normalize_query = (\<lambda>q. q),
       add_dialect_support = (\<lambda>q. q),
       enhance_query_flexibility = (\<lambda>q. q),
       system_prompt = (\<lambda>history context question. history @ context @ question),
       chat_completion = (\<lambda>attempt messages. Inr reply),
       strip_citations = (\<lambda>answer. answer),
       uuid4 = (\<lambda>n. lit ''id-'' @ str_nat n),
       utcnow = lit ''2025-01-01T00:00:00'',
       float_sum = sum_list,
       float_div = (\<lambda>x n. x / of_nat n) \<rparr>"

subsection \<open>The vocabulary of the claims about \<open>enhance_query_with_context\<close>\<close>

text \<open>
  Referential language is detected: a reference word occurs in the lower-cased query, or
  the query has fewer than five tokens (line 422).
\<close>

definition referential :: "unicode \<Rightarrow> pystr \<Rightarrow> bool" where
  "referential u current_query =
     (list_ex (\<lambda>word. contains (u_lower u current_query) word) reference_words
      \<or> length (py_split current_query) < 5)"

text \<open>The texts of the user entries among the last four entries of the history, in order.\<close>

definition recent_user_texts :: "hist_entry list \<Rightarrow> pystr list" where
  "recent_user_texts conversation_history =
     map h_text (filter (\<lambda>msg. h_role msg = lit ''user'') (slice_from (- 4) conversation_history))"

text \<open>
  A stored session for the examples, as two earlier exchanges leave it. Oldest first: a
  user message (code points 1605 1602 1575 1604), an answer, a second user message (code
  points 1588 1593 1585) and an answer.
\<close>

definition sample_session :: session_doc where
  "sample_session =
     \<lparr> doc_messages = Some
         [\<lparr> m_id = lit ''m1'', m_role = lit ''user'', m_text = [1605, 1602, 1575, 1604],
            m_feedback = None \<rparr>,
          \<lparr> m_id = lit ''m2'', m_role = lit ''assistant'', m_text = [1606, 1593, 1605],
            m_feedback = None \<rparr>,
          \<lparr> m_id = lit ''m3'', m_role = lit ''user'', m_text = [1588, 1593, 1585],
            m_feedback = None \<rparr>,
          \<lparr> m_id = lit ''m4'', m_role = lit ''assistant'', m_text = [1606, 1593, 1605],
            m_feedback = None \<rparr>],
       message_count = Some 4,
       feedback_statistics = Some
         \<lparr> positive = 0, negative = 0, null_count = 0, total_assistant_messages = 2,
           positive_ratio = 0, negative_ratio = 0, overall_feedback = lit ''neutral'',
           last_updated = lit ''2025-01-01T00:00:00'' \<rparr> \<rparr>"

section \<open>Statistics: the two paths agree\<close>

lemma recalculate_step_eq: "recalculate_step c msg = update_step c msg"
  by (cases c) (auto simp: recalculate_step_def update_step_def Let_def get_feedback_def
      split: option.splits)

lemma recalculate_loop_eq: "recalculate_loop c msgs = update_loop c msgs"
  by (induction msgs arbitrary: c) (simp_all add: recalculate_step_eq)

text \<open>
  Claim C1. For every store and session, the statistics path used after an assistant
  message or a rating (\<open>update_feedback_statistics\<close>) and the recalculation from scratch
  (\<open>recalculate_all_statistics\<close>) do the same: with the same clock reading they return
  the same value and leave the same store, and with any two clock readings the returned
  dicts have the same positive, negative and null counts, the same total, the same two
  ratios and the same overall label (both return \<open>{}\<close> in the same cases).
\<close>

theorem statistics_paths_agree:
  "recalculate_all_statistics now st session_id = update_feedback_statistics now st session_id
   \<and> rel_option (\<lambda>a b. positive a = positive b \<and> negative a = negative b
          \<and> null_count a = null_count b
          \<and> total_assistant_messages a = total_assistant_messages b
          \<and> positive_ratio a = positive_ratio b \<and> negative_ratio a = negative_ratio b
          \<and> overall_feedback a = overall_feedback b)
        (fst (update_feedback_statistics now1 st session_id))
        (fst (recalculate_all_statistics now2 st session_id))"
  by (simp add: recalculate_all_statistics_def update_feedback_statistics_def
      recalculate_loop_eq make_statistics_def Let_def split: option.splits prod.splits)

section \<open>Statistics: the four buckets\<close>

lemma update_loop_partition:
  "update_loop (p, n, z, t) msgs = (p', n', z', t') \<Longrightarrow>
     p' + n' + z' + never_rated msgs + t = p + n + z + t'"
proof (induction msgs arbitrary: p n z t)
  case Nil
  then show ?case by (simp add: never_rated_def)
next
  case (Cons msg msgs)
  obtain p1 n1 z1 t1 where s: "update_step (p, n, z, t) msg = (p1, n1, z1, t1)"
    by (cases "update_step (p, n, z, t) msg") auto
  with Cons.prems have "update_loop (p1, n1, z1, t1) msgs = (p', n', z', t')" by simp
  from Cons.IH [OF this] have ih: "p' + n' + z' + never_rated msgs + t1 = p1 + n1 + z1 + t'" .
  from s have "p1 + n1 + z1
        + (if m_role msg = lit ''assistant'' \<and> m_feedback msg = None then 1 else 0) + t
      = p + n + z + t1"
    by (auto simp: update_step_def Let_def get_feedback_def split: if_splits option.splits)
  with ih show ?case by (auto simp: never_rated_def split: if_splits)
qed

text \<open>
  Claim C2. For every stored session, \<open>update_feedback_statistics\<close> returns a statistics
  dict in which the positive count, the negative count, the null count (feedback key
  present, value neither \<open>up\<close> nor \<open>down\<close>) and the number of assistant messages with no
  feedback key at all add up to \<open>total_assistant_messages\<close>.
\<close>

theorem statistics_partition:
  assumes "c session_id = Some d"
  shows "\<exists>s. fst (update_feedback_statistics now (Some c) session_id) = Some s
     \<and> positive s + negative s + null_count s + never_rated (get_messages d)
         = total_assistant_messages s"
proof -
  obtain p n z t where l: "update_loop (0, 0, 0, 0) (get_messages d) = (p, n, z, t)"
    by (cases "update_loop (0, 0, 0, 0) (get_messages d)") auto
  from update_loop_partition [OF l] show ?thesis
    using assms by (simp add: update_feedback_statistics_def l make_statistics_def Let_def)
qed

theorem statistics_partition_witness:
  "\<exists>s. fst (update_feedback_statistics (lit ''t'')
            (Some (Map.empty(lit ''s'' := Some \<lparr> doc_messages = Some
               [\<lparr> m_id = lit ''a'', m_role = lit ''user'', m_text = lit ''q'', m_feedback = None \<rparr>,
                \<lparr> m_id = lit ''b'', m_role = lit ''assistant'', m_text = lit ''r'',
                  m_feedback = Some (PStr (lit ''up'')) \<rparr>,
                \<lparr> m_id = lit ''c'', m_role = lit ''assistant'', m_text = lit ''r'',
                  m_feedback = Some PNone \<rparr>,
                \<lparr> m_id = lit ''d'', m_role = lit ''assistant'', m_text = lit ''r'',
                  m_feedback = None \<rparr>],
               message_count = Some 4, feedback_statistics = None \<rparr>)))
            (lit ''s'')) = Some s
     \<and> positive s + negative s + null_count s + 1 = total_assistant_messages s"
  using statistics_partition [of
      "Map.empty(lit ''s'' := Some \<lparr> doc_messages = Some
               [\<lparr> m_id = lit ''a'', m_role = lit ''user'', m_text = lit ''q'', m_feedback = None \<rparr>,
                \<lparr> m_id = lit ''b'', m_role = lit ''assistant'', m_text = lit ''r'',
                  m_feedback = Some (PStr (lit ''up'')) \<rparr>,
                \<lparr> m_id = lit ''c'', m_role = lit ''assistant'', m_text = lit ''r'',
                  m_feedback = Some PNone \<rparr>,
                \<lparr> m_id = lit ''d'', m_role = lit ''assistant'', m_text = lit ''r'',
                  m_feedback = None \<rparr>],
               message_count = Some 4, feedback_statistics = None \<rparr>)"
      "lit ''s''" _ "lit ''t''"]
  by (simp add: never_rated_def get_messages_def lit_def)

section \<open>Feedback on a message\<close>

lemma feedback_loop_eq:
  "feedback_loop mid fb msgs =
     (case target_message mid msgs of
        None \<Rightarrow> NotFound
      | Some m \<Rightarrow>
          if m_role m = lit ''assistant'' then Updated (set_feedback mid fb msgs) else Rejected)"
  by (induction msgs) (auto simp: target_message_def split: option.splits)

text \<open>
  Claim C3. \<open>update_message_feedback\<close> returns \<open>False\<close> and leaves the store as it was
  when the store or the session is missing, when no message of the session has the id,
  and when the message with that id is not an assistant message. When it returns
  \<open>True\<close>, the session exists, the message with that id is an assistant message, and the
  document written back is the session with the rating set on that message.
\<close>

theorem update_message_feedback_outcome:
  "(st = None \<or> (\<exists>c. st = Some c \<and> c session_id = None)
      \<longrightarrow> update_message_feedback st session_id message_id feedback = (False, st))
   \<and> (\<forall>c d. st = Some c \<and> c session_id = Some d
          \<and> target_message message_id (get_messages d) = None
      \<longrightarrow> update_message_feedback st session_id message_id feedback = (False, st))
   \<and> (\<forall>c d m. st = Some c \<and> c session_id = Some d
          \<and> target_message message_id (get_messages d) = Some m \<and> m_role m \<noteq> lit ''assistant''
      \<longrightarrow> update_message_feedback st session_id message_id feedback = (False, st))
   \<and> (fst (update_message_feedback st session_id message_id feedback)
      \<longrightarrow> (\<exists>c d m. st = Some c \<and> c session_id = Some d
             \<and> target_message message_id (get_messages d) = Some m \<and> m_role m = lit ''assistant''
             \<and> snd (update_message_feedback st session_id message_id feedback)
                 = Some (c(session_id := Some (d\<lparr>doc_messages :=
                      Some (set_feedback message_id feedback (get_messages d))\<rparr>)))))"
  by (auto simp: update_message_feedback_def feedback_loop_eq split: option.splits)

theorem update_message_feedback_outcome_witness:
  "update_message_feedback
      (Some (Map.empty(lit ''s'' := Some \<lparr> doc_messages = Some
          [\<lparr> m_id = lit ''m1'', m_role = lit ''user'', m_text = lit ''hi'', m_feedback = None \<rparr>],
          message_count = Some 1, feedback_statistics = None \<rparr>)))
      (lit ''s'') (lit ''m1'') (PStr (lit ''up''))
    = (False, Some (Map.empty(lit ''s'' := Some \<lparr> doc_messages = Some
          [\<lparr> m_id = lit ''m1'', m_role = lit ''user'', m_text = lit ''hi'', m_feedback = None \<rparr>],
          message_count = Some 1, feedback_statistics = None \<rparr>)))"
  using update_message_feedback_outcome [of
      "Some (Map.empty(lit ''s'' := Some \<lparr> doc_messages = Some
          [\<lparr> m_id = lit ''m1'', m_role = lit ''user'', m_text = lit ''hi'', m_feedback = None \<rparr>],
          message_count = Some 1, feedback_statistics = None \<rparr>))"
      "lit ''s''" "lit ''m1''" "PStr (lit ''up'')"]
  by (simp add: target_message_def get_messages_def lit_def)

section \<open>Saving a message and reading it back\<close>

text \<open>
  Claim C10. A role is \<open>user\<close> or \<open>assistant\<close>: the docstring of \<open>save_message\<close>, the
  \<open>Message\<close> model and every call of \<open>save_message\<close> say so. For every session, every
  such role and every text, with the store available, \<open>save_message\<close> returns the new id
  and \<open>get_session_messages\<close> with \<open>limit=1\<close> then returns exactly one message, with that
  id, the given role and the given text, whether the session existed before or not.
\<close>

theorem save_then_get:
  assumes "role = lit ''user'' \<or> role = lit ''assistant''"
  shows "fst (save_message new_id now (Some c) session_id role text) = new_id
     \<and> get_session_messages (snd (save_message new_id now (Some c) session_id role text))
          session_id 1
        = [\<lparr> msg_id = new_id, msg_role = role, msg_text = text, msg_feedback = None \<rparr>]"
  using assms
  by (auto simp: save_message_def get_session_messages_def update_feedback_statistics_def
      get_messages_def Let_def slice_from_def Message_init_def get_feedback_def lit_def
      split: option.splits)

theorem save_then_get_witness:
  "fst (save_message (lit ''m1'') (lit ''t'') (Some Map.empty) (lit ''s'') (lit ''user'') (lit ''hi''))
     = lit ''m1''
   \<and> get_session_messages
        (snd (save_message (lit ''m1'') (lit ''t'') (Some Map.empty) (lit ''s'') (lit ''user'')
               (lit ''hi'')))
        (lit ''s'') 1
      = [\<lparr> msg_id = lit ''m1'', msg_role = lit ''user'', msg_text = lit ''hi'',
           msg_feedback = None \<rparr>]"
  using save_then_get [of "lit ''user''" "lit ''m1''" "lit ''t''" Map.empty "lit ''s''" "lit ''hi''"]
  by simp

section \<open>Context formatting stays within the budget\<close>

lemma context_loop_prefix:
  "map snd (context_loop m i t docs) = take (length (context_loop m i t docs)) docs"
  by (induction docs arbitrary: i t) auto

lemma context_loop_sum:
  "t \<le> m \<Longrightarrow> t + sum_list (map chunk_words (map snd (context_loop m i t docs))) \<le> m"
proof (induction docs arbitrary: i t)
  case Nil
  then show ?case by simp
next
  case (Cons doc docs)
  show ?case
  proof (cases "t + chunk_words doc > m")
    case True
    with Cons.prems show ?thesis by simp
  next
    case False
    then have "t + chunk_words doc \<le> m" by simp
    from Cons.IH [OF this, of "i + 1"] False show ?thesis by (simp add: add.assoc)
  qed
qed

lemma upt_shift: "[i ..< i + Suc n] = i # [Suc i ..< Suc i + n]"
proof -
  have "i < i + Suc n" by simp
  then have "[i ..< i + Suc n] = i # [Suc i ..< i + Suc n]" by (rule upt_conv_Cons)
  then show ?thesis by simp
qed

lemma context_loop_fst:
  "map fst (context_loop m i t docs) = [i ..< i + length (context_loop m i t docs)]"
proof (induction docs arbitrary: i t)
  case Nil
  then show ?case by simp
next
  case (Cons doc docs)
  show ?case
  proof (cases "t + chunk_words doc > m")
    case True
    then show ?thesis by simp
  next
    case False
    let ?rest = "context_loop m (i + 1) (t + chunk_words doc) docs"
    from False have "context_loop m i t (doc # docs) = (i, doc) # ?rest" by simp
    then have "map fst (context_loop m i t (doc # docs)) = i # map fst ?rest"
      and "length (context_loop m i t (doc # docs)) = Suc (length ?rest)"
      by simp_all
    moreover have "map fst ?rest = [Suc i ..< Suc i + length ?rest]"
      using Cons.IH [of "i + 1" "t + chunk_words doc"] by simp
    ultimately show ?thesis by (simp only: upt_shift)
  qed
qed

lemma context_loop_ordinals:
  "context_loop m i t docs
     = zip [i ..< i + length (context_loop m i t docs)] (map snd (context_loop m i t docs))"
  using context_loop_fst [of m i t docs] zip_map_fst_snd [of "context_loop m i t docs"]
  by simp

lemma format_context_included:
  "format_context_for_llm search_results max_tokens
     = (if search_results = [] then lit ''No relevant information found.''
        else py_join [10] (map context_part
               (zip [1 ..< 1 + length (included search_results max_tokens)]
                    (included search_results max_tokens))))"
  using context_loop_ordinals [of max_tokens 1 0 search_results]
  by (simp add: format_context_for_llm_def included_def)

text \<open>
  Claim C7. A budget is a number of words, so it is not negative (the one call of the
  function passes \<open>MAX_TOKENS_CONTEXT = 1200\<close>). For every list of results and every such
  budget, the string that \<open>format_context_for_llm\<close> returns is made of the passages of
  \<open>included\<close>, numbered from 1 in their order; these are a prefix of the list (so they
  keep the ranking order), their word counts add up to at most \<open>max_tokens\<close>, and the
  first result is among them whenever its own word count is within the budget.
\<close>

theorem context_budget:
  assumes "0 \<le> max_tokens"
  shows "included search_results max_tokens
           = take (length (included search_results max_tokens)) search_results
     \<and> sum_list (map chunk_words (included search_results max_tokens)) \<le> max_tokens
     \<and> (\<forall>doc docs. search_results = doc # docs \<and> chunk_words doc \<le> max_tokens
          \<longrightarrow> (\<exists>rest. included search_results max_tokens = doc # rest))
     \<and> format_context_for_llm search_results max_tokens
         = (if search_results = [] then lit ''No relevant information found.''
            else py_join [10] (map context_part
                   (zip [1 ..< 1 + length (included search_results max_tokens)]
                        (included search_results max_tokens))))"
proof -
  have a: "included search_results max_tokens
           = take (length (included search_results max_tokens)) search_results"
    unfolding included_def length_map by (rule context_loop_prefix)
  have "0 + sum_list (map chunk_words (map snd (context_loop max_tokens 1 0 search_results)))
          \<le> max_tokens"
    using assms by (rule context_loop_sum)
  then have b: "sum_list (map chunk_words (included search_results max_tokens)) \<le> max_tokens"
    by (simp add: included_def)
  have c: "\<forall>doc docs. search_results = doc # docs \<and> chunk_words doc \<le> max_tokens
          \<longrightarrow> (\<exists>rest. included search_results max_tokens = doc # rest)"
    by (auto simp: included_def)
  note d = format_context_included [of search_results max_tokens]
  from a b c d show ?thesis by blast
qed

theorem context_budget_witness:
  "included
     [\<lparr> d_title = Some (lit ''T''), d_url = Some (lit ''u''), d_summary = None,
        d_content = Some (lit ''a b''), d_score = None \<rparr>,
      \<lparr> d_title = Some (lit ''V''), d_url = Some (lit ''w''), d_summary = None,
        d_content = Some (lit ''c d''), d_score = None \<rparr>] 3
   = [\<lparr> d_title = Some (lit ''T''), d_url = Some (lit ''u''), d_summary = None,
        d_content = Some (lit ''a b''), d_score = None \<rparr>]
   \<and> sum_list (map chunk_words (included
        [\<lparr> d_title = Some (lit ''T''), d_url = Some (lit ''u''), d_summary = None,
           d_content = Some (lit ''a b''), d_score = None \<rparr>,
         \<lparr> d_title = Some (lit ''V''), d_url = Some (lit ''w''), d_summary = None,
           d_content = Some (lit ''c d''), d_score = None \<rparr>] 3)) \<le> 3"
  using context_budget [of 3
     "[\<lparr> d_title = Some (lit ''T''), d_url = Some (lit ''u''), d_summary = None,
        d_content = Some (lit ''a b''), d_score = None \<rparr>,
      \<lparr> d_title = Some (lit ''V''), d_url = Some (lit ''w''), d_summary = None,
        d_content = Some (lit ''c d''), d_score = None \<rparr>]"]
  by (simp add: included_def chunk_words_def doc_content_def py_split_def lit_def isspace_def)

section \<open>The chat pipeline\<close>

subsection \<open>Every call returns\<close>

lemma range_3: "[0 ..< 3] = [0, 1, 2::nat]"
  by (simp add: upt_rec)

lemma llm_loop_returns: "\<exists>answer. llm_loop e msgs 3 [0 ..< 3] = Some answer"
  by (simp add: range_3 llm_attempt_def Let_def split: sum.splits)

lemma answer_and_log_returns:
  "\<exists>out. answer_and_log e st message session_id is_new htext hist eq nq results err has avg rel greet
     = Some out
   \<and> o_return out = Final \<and> o_searched out = [nq]
   \<and> (\<forall>entry \<in> set (o_logged out).
         rel \<and> \<not> greet \<and> l_reason entry = log_reason err has avg \<and> l_search_error entry = err
         \<and> l_retrieval_count entry = length results \<and> l_avg_score entry = avg
         \<and> l_question entry = message)"
proof -
  obtain answer where a: "llm_loop e
     (if is_new then
        [(lit ''system'', system_prompt e [] (format_context_for_llm results MAX_TOKENS_CONTEXT) message),
         (lit ''user'', message)]
      else
        [(lit ''system'', system_prompt e htext (format_context_for_llm results MAX_TOKENS_CONTEXT) message)]
        @ map (\<lambda>hist_msg.
                 (if h_role hist_msg = lit ''user'' then lit ''user'' else lit ''assistant'',
                  take 500 (h_text hist_msg)))
              (slice_from (- 6) hist)
        @ [(lit ''user'', message)]) 3 [0 ..< 3] = Some answer"
    using llm_loop_returns by blast
  show ?thesis
    unfolding answer_and_log_def Let_def a by simp
qed

lemma answer_and_log_return:
  "answer_and_log e st message session_id is_new htext hist eq nq results err has avg rel greet
     = Some out \<Longrightarrow> o_return out = Final"
  using answer_and_log_returns [of e st message session_id is_new htext hist eq nq results err
      has avg rel greet]
  by auto

lemma answer_and_log_entry:
  assumes "answer_and_log e st message session_id is_new htext hist eq nq results err has avg rel
             greet = Some out"
    and "entry \<in> set (o_logged out)"
  shows "o_searched out = [nq] \<and> l_reason entry = log_reason err has avg
     \<and> l_search_error entry = err \<and> l_question entry = message"
  using answer_and_log_returns [of e st message session_id is_new htext hist eq nq results err
      has avg rel greet] assms
  by auto

lemma answer_and_log_greeting:
  "\<exists>out. answer_and_log e st message session_id is_new htext hist eq nq results err has avg rel True
     = Some out \<and> o_logged out = []"
proof -
  obtain out where o: "answer_and_log e st message session_id is_new htext hist eq nq results err
       has avg rel True = Some out"
    and l: "\<forall>entry \<in> set (o_logged out). rel \<and> \<not> True \<and> l_reason entry = log_reason err has avg
         \<and> l_search_error entry = err
         \<and> l_retrieval_count entry = length results \<and> l_avg_score entry = avg
         \<and> l_question entry = message"
    using answer_and_log_returns [of e st message session_id is_new htext hist eq nq results err
        has avg rel True] by blast
  from l have "set (o_logged out) = {}" by auto
  with o show ?thesis by simp
qed

subsection \<open>The language gate\<close>

lemma generate_chat_response_redirect:
  assumes "\<not> is_arabic_text (unicode_tables e) message"
  shows "\<exists>out. generate_chat_response e st message session_id_arg = Some out
     \<and> o_answer out = english_response \<and> o_sources out = [] \<and> o_logged out = []
     \<and> o_return out = Redirect \<and> length (o_searched out) = 1"
  using assms by (simp add: generate_chat_response_def Let_def)

text \<open>
  Claim C4, as the code has it. For every message whose ratio of Arabic-block characters
  to alphabetic characters is at most \<open>1/2\<close>, or that has no alphabetic character,
  \<open>generate_chat_response\<close> returns the fixed redirect with an empty source list through
  the \<open>return\<close> of line 520 and hands nothing to the unanswered-question log. The search
  has run by then: exactly one query was handed to \<open>hybrid_search\<close>.
\<close>

theorem non_arabic_redirect:
  assumes "total_chars (unicode_tables e) message = 0
     \<or> (of_nat (arabic_chars message) :: rat) / of_nat (total_chars (unicode_tables e) message)
          \<le> 1 / 2"
  shows "\<exists>out. generate_chat_response e st message session_id_arg = Some out
     \<and> o_answer out = english_response \<and> o_sources out = [] \<and> o_logged out = []
     \<and> o_return out = Redirect \<and> length (o_searched out) = 1"
proof -
  from assms have "\<not> is_arabic_text (unicode_tables e) message"
    by (auto simp: is_arabic_text_def)
  then show ?thesis by (rule generate_chat_response_redirect)
qed

theorem non_arabic_redirect_witness:
  "\<exists>out. generate_chat_response (sample_env (Inr []) []) (Some Map.empty) (lit ''hello'') None
          = Some out
     \<and> o_answer out = english_response \<and> o_sources out = [] \<and> o_logged out = []
     \<and> o_return out = Redirect \<and> length (o_searched out) = 1"
  using non_arabic_redirect [of "sample_env (Inr []) []" "lit ''hello''" "Some Map.empty" None]
  by (simp add: sample_env_def sample_unicode_def total_chars_def arabic_chars_def lit_def)

lemma latin_word: "\<not> is_arabic_text sample_unicode (lit ''hello'')"
  by (simp add: is_arabic_text_def sample_unicode_def arabic_chars_def total_chars_def lit_def)

lemma hello_short: "length (py_split (lit ''hello'')) \<le> 10"
  by (simp add: py_split_def isspace_def lit_def)

text \<open>
  Claim C4 as stated, with the retrieval skipped: for the English message \<open>hello\<close> in a
  new session the query \<open>hello\<close> is handed to \<open>hybrid_search\<close> before the language is
  looked at.
\<close>

theorem non_arabic_redirect_counterexample:
  "\<not> is_arabic_text sample_unicode (lit ''hello'')
   \<and> map_option o_searched
        (generate_chat_response (sample_env (Inr []) []) (Some Map.empty) (lit ''hello'') None)
      = Some [lit ''hello'']"
  by (simp add: generate_chat_response_def Let_def sample_env_def latin_word hello_short)

subsection \<open>Query enhancement\<close>

lemma startswith_append: "startswith (w @ ys) w"
  by (induction w) auto

lemma contains_append: "contains (xs @ w @ ys) w"
proof (induction xs)
  case Nil
  show ?case by (cases "w @ ys") (auto simp: startswith_append, metis startswith_append)
next
  case (Cons x xs)
  then show ?case by simp
qed

lemma contains_hd: "contains s (c # w) \<Longrightarrow> c \<in> set s"
proof (induction s)
  case Nil
  then show ?case by simp
next
  case (Cons a s)
  then show ?case by (cases "a = c") auto
qed

lemma join_last: "xs \<noteq> [] \<Longrightarrow> py_join sep (slice_from (- 1) xs) = last xs"
proof -
  assume "xs \<noteq> []"
  then have "slice_from (- 1) xs = [last xs]"
    by (cases xs rule: rev_cases) (auto simp: slice_from_def)
  then show ?thesis by simp
qed

text \<open>
  What \<open>enhance_query_with_context\<close> does with the list it is given. With fewer than two
  entries the query comes back unchanged. With at least two entries, referential language
  detected and a user entry among the last four entries of the list, the result is the
  first 500 characters of the text of the last such entry, a space and the query; it is
  at most 500 characters long, and it contains the whole query when that concatenation
  has at most 500 characters. Without referential language, or without a user entry among
  the last four, the query comes back unchanged.
\<close>

lemma enhance_query_with_context_result:
  "(length conversation_history < 2
      \<longrightarrow> enhance_query_with_context u current_query conversation_history = current_query)
   \<and> (2 \<le> length conversation_history \<and> referential u current_query
        \<and> recent_user_texts conversation_history \<noteq> []
      \<longrightarrow> enhance_query_with_context u current_query conversation_history
            = take 500 (last (recent_user_texts conversation_history) @ [32] @ current_query)
          \<and> length (enhance_query_with_context u current_query conversation_history) \<le> 500
          \<and> (length (last (recent_user_texts conversation_history)) + 1 + length current_query \<le> 500
               \<longrightarrow> contains (enhance_query_with_context u current_query conversation_history)
                     current_query))
   \<and> (\<not> referential u current_query \<or> recent_user_texts conversation_history = []
      \<longrightarrow> enhance_query_with_context u current_query conversation_history = current_query)"
proof -
  have c: "contains (last (recent_user_texts conversation_history) @ [32] @ current_query)
             current_query"
    using contains_append [of "last (recent_user_texts conversation_history) @ [32]"
        current_query "[]"]
    by simp
  show ?thesis
    using c
    by (auto simp: enhance_query_with_context_def Let_def referential_def recent_user_texts_def
        join_last)
qed

lemma hi_short: "length (py_split (lit ''hi'')) < 5"
  by (simp add: py_split_def lit_def isspace_def)

text \<open>
  The cut at 500 characters keeps the front: after a user utterance of 500 characters
  the result for the query \<open>hi\<close> is that utterance alone, and the query is not in it.
\<close>

lemma enhance_query_truncated:
  "\<not> contains
      (enhance_query_with_context sample_unicode (lit ''hi'')
         [\<lparr> h_role = lit ''user'', h_text = replicate 500 97 \<rparr>,
          \<lparr> h_role = lit ''assistant'', h_text = lit ''ok'' \<rparr>])
      (lit ''hi'')"
proof -
  have "enhance_query_with_context sample_unicode (lit ''hi'')
         [\<lparr> h_role = lit ''user'', h_text = replicate 500 97 \<rparr>,
          \<lparr> h_role = lit ''assistant'', h_text = lit ''ok'' \<rparr>] = replicate 500 97"
    using hi_short by (simp add: enhance_query_with_context_def Let_def slice_from_def lit_def)
  moreover have "\<not> contains (replicate 500 97) (lit ''hi'')"
    using contains_hd [of "replicate 500 97" 104 "[105]"] by (auto simp: lit_def)
  ultimately show ?thesis by simp
qed

lemma sample_history:
  "get_session_messages (Some (Map.empty(lit ''s'' := Some sample_session))) (lit ''s'') 10
   = [\<lparr> msg_id = lit ''m1'', msg_role = lit ''user'', msg_text = [1605, 1602, 1575, 1604],
        msg_feedback = None \<rparr>,
      \<lparr> msg_id = lit ''m2'', msg_role = lit ''assistant'', msg_text = [1606, 1593, 1605],
        msg_feedback = None \<rparr>,
      \<lparr> msg_id = lit ''m3'', msg_role = lit ''user'', msg_text = [1588, 1593, 1585],
        msg_feedback = None \<rparr>,
      \<lparr> msg_id = lit ''m4'', msg_role = lit ''assistant'', msg_text = [1606, 1593, 1605],
        msg_feedback = None \<rparr>]"
  by (simp add: get_session_messages_def sample_session_def get_messages_def slice_from_def
      Message_init_def get_feedback_def lit_def)

lemma this_short: "length (py_split [1607, 1584, 1575]) < 5"
  by (simp add: py_split_def isspace_def)

lemma sample_enhanced:
  "enhance_query_with_context sample_unicode [1607, 1584, 1575]
     [\<lparr> h_role = lit ''assistant'', h_text = [1606, 1593, 1605] \<rparr>,
      \<lparr> h_role = lit ''user'', h_text = [1588, 1593, 1585] \<rparr>,
      \<lparr> h_role = lit ''assistant'', h_text = [1606, 1593, 1605] \<rparr>,
      \<lparr> h_role = lit ''user'', h_text = [1605, 1602, 1575, 1604] \<rparr>]
   = [1605, 1602, 1575, 1604, 32, 1607, 1584, 1575]"
  using this_short
  by (simp add: enhance_query_with_context_def Let_def slice_from_def lit_def)

lemma this_arabic: "is_arabic_text sample_unicode [1607, 1584, 1575]"
  by (simp add: is_arabic_text_def sample_unicode_def arabic_chars_def total_chars_def)

lemma this_no_greeting: "\<not> is_basic_conversation sample_unicode [1607, 1584, 1575]"
  by (simp add: is_basic_conversation_def sample_unicode_def py_strip_def isspace_def
      basic_patterns_def)

lemma enhanced_related:
  "is_doha_magazine_related sample_unicode [1605, 1602, 1575, 1604, 32, 1607, 1584, 1575] []"
  by (simp add: is_doha_magazine_related_def sample_unicode_def py_strip_def isspace_def
      doha_terms_def article_terms_def lit_def)

lemma session_known: "lit ''s'' \<noteq> [] \<and> py_strip (lit ''s'') \<noteq> []"
  by (simp add: py_strip_def isspace_def lit_def)

text \<open>
  Claim C5 in the pipeline, for the stored session \<open>sample_session\<close> and the new message
  of code points 1607 1584 1575, a reference word. \<open>get_session_messages\<close> returns the
  history oldest first, line 475 reverses it, and \<open>enhance_query_with_context\<close> takes the
  last user entry of the list it is given. The utterance put in front of the query is
  therefore the first user message of the session (1605 1602 1575 1604) and not the most
  recent one (1588 1593 1585): the query handed to the search is the oldest utterance, a
  space and the message.
\<close>

theorem oldest_utterance_prepended:
  "map_option o_searched
     (generate_chat_response (sample_env (Inr []) [])
        (Some (Map.empty(lit ''s'' := Some sample_session))) [1607, 1584, 1575] (Some (lit ''s'')))
   = Some [[1605, 1602, 1575, 1604, 32, 1607, 1584, 1575]]"
  by (simp add: generate_chat_response_def Let_def sample_env_def sample_history
      sample_enhanced this_arabic this_no_greeting enhanced_related session_known
      answer_and_log_def range_3 llm_attempt_def)

subsection \<open>The decline branch\<close>

lemma related_of_results:
  "results \<noteq> [] \<Longrightarrow> is_doha_magazine_related u q (map source_for_check results)"
  by (simp add: is_doha_magazine_related_def Let_def)

text \<open>
  Claim C8. \<open>is_doha_magazine_related\<close> holds for every non-empty source list, and no
  call of \<open>generate_chat_response\<close> ends at the \<open>return\<close> of the decline branch (line
  538), whatever the message, the session, the store and the collaborators are.
\<close>

theorem decline_unreachable:
  "is_doha_magazine_related u query (src # srcs)
   \<and> map_option o_return (generate_chat_response e st message session_id_arg) \<noteq> Some Decline"
proof -
  have "is_doha_magazine_related u query (src # srcs)"
    by (simp add: is_doha_magazine_related_def Let_def)
  moreover
  have "map_option o_return (generate_chat_response e st message session_id_arg) \<noteq> Some Decline"
    by (auto simp: generate_chat_response_def Let_def related_of_results
        dest: answer_and_log_return split: if_splits)
  ultimately show ?thesis by simp
qed

subsection \<open>Greetings\<close>

lemma greeting_outcome:
  assumes "is_basic_conversation (unicode_tables e) message"
  shows "\<exists>out. generate_chat_response e st message session_id_arg = Some out \<and> o_logged out = []"
proof (cases "is_arabic_text (unicode_tables e) message")
  case False
  from generate_chat_response_redirect [OF this, of st session_id_arg] show ?thesis by auto
next
  case True
  then show ?thesis
    using assms by (simp add: generate_chat_response_def Let_def answer_and_log_greeting)
qed

text \<open>
  Claim C9. For every message that matches the greeting patterns, the call returns and
  has handed nothing to the unanswered-question log, whatever the search does (results
  or none, exception or not) and whatever the answer is.
\<close>

theorem greeting_never_logged:
  assumes "is_basic_conversation (unicode_tables e) message"
  shows "\<exists>out. generate_chat_response e st message session_id_arg = Some out \<and> o_logged out = []"
  using assms by (rule greeting_outcome)

lemma greeting_word: "is_basic_conversation sample_unicode [1605, 1585, 1581, 1576, 1575]"
  by (simp add: is_basic_conversation_def sample_unicode_def py_strip_def isspace_def
      basic_patterns_def)

theorem greeting_never_logged_witness:
  "is_basic_conversation sample_unicode [1605, 1585, 1581, 1576, 1575]
   \<and> (\<exists>out. generate_chat_response
               (sample_env (Inl (lit ''boom'')) [1604, 1575, 32, 1610, 1608, 1580, 1583])
               (Some Map.empty) [1605, 1585, 1581, 1576, 1575] None = Some out
          \<and> o_logged out = [])"
  using greeting_never_logged [of
      "sample_env (Inl (lit ''boom'')) [1604, 1575, 32, 1610, 1608, 1580, 1583]"
      "[1605, 1585, 1581, 1576, 1575]" "Some Map.empty" None] greeting_word
  by (simp add: sample_env_def)

subsection \<open>The reason of a log entry\<close>

lemma log_reason_found:
  "log_reason (case found of Inl err \<Rightarrow> Some err | Inr results \<Rightarrow> None)
      (0 < length (case found of Inl err \<Rightarrow> [] | Inr results \<Rightarrow> results))
      (average_score e (case found of Inl err \<Rightarrow> [] | Inr results \<Rightarrow> results))
   = (case found of
        Inl err \<Rightarrow> if err \<noteq> [] then lit ''search_error'' else lit ''no_results''
      | Inr results \<Rightarrow>
          if results = [] then lit ''no_results''
          else if average_score e results < double_03 then lit ''low_score''
          else lit ''insufficient_information'')"
  by (cases found) (simp_all add: log_reason_def truthy_def)

text \<open>
  What the code does for every entry it logs: the reason follows the outcome of the one
  search of the call. An exception with a text gives \<open>search_error\<close>; an exception whose
  text is empty falls through to \<open>no_results\<close>; results give \<open>no_results\<close>, \<open>low_score\<close>
  or \<open>insufficient_information\<close> in this order.
\<close>

lemma generate_chat_response_logged:
  assumes "generate_chat_response e st message session_id_arg = Some out"
    and "entry \<in> set (o_logged out)"
  shows "\<exists>q. o_searched out = [q]
     \<and> l_question entry = message
     \<and> l_search_error entry = (case hybrid_search e q RETRIEVAL_TOP_K of
                                   Inl err \<Rightarrow> Some err | Inr results \<Rightarrow> None)
     \<and> l_reason entry =
         (case hybrid_search e q RETRIEVAL_TOP_K of
            Inl err \<Rightarrow> if err \<noteq> [] then lit ''search_error'' else lit ''no_results''
          | Inr results \<Rightarrow>
              if results = [] then lit ''no_results''
              else if average_score e results < double_03 then lit ''low_score''
              else lit ''insufficient_information'')"
proof (cases "is_arabic_text (unicode_tables e) message")
  case False
  from generate_chat_response_redirect [OF this, of st session_id_arg] assms show ?thesis by auto
next
  case True
  show ?thesis
  proof (cases "is_basic_conversation (unicode_tables e) message")
    case g: True
    from greeting_outcome [OF this, of st session_id_arg] assms show ?thesis by auto
  next
    case g: False
    from assms True g show ?thesis
      by (auto simp: generate_chat_response_def Let_def log_reason_found [symmetric]
          split: if_splits dest!: answer_and_log_entry)
  qed
qed

lemma arabic_word: "is_arabic_text sample_unicode [1605, 1602, 1575, 1604]"
  by (simp add: is_arabic_text_def sample_unicode_def arabic_chars_def total_chars_def)

lemma strip_word: "py_strip [1605, 1602, 1575, 1604] = [1605, 1602, 1575, 1604]"
  by (simp add: py_strip_def isspace_def)

lemma word_no_greeting: "\<not> is_basic_conversation sample_unicode [1605, 1602, 1575, 1604]"
  by (simp add: is_basic_conversation_def sample_unicode_def strip_word basic_patterns_def)

lemma word_related: "is_doha_magazine_related sample_unicode [1605, 1602, 1575, 1604] []"
  by (simp add: is_doha_magazine_related_def sample_unicode_def strip_word doha_terms_def
      article_terms_def lit_def)

lemma cannot_answer:
  "list_ex (contains [1604, 1575, 32, 1610, 1608, 1580, 1583]) unanswered_indicators"
  by (simp add: unanswered_indicators_def)

lemma strip_reply:
  "py_strip [1604, 1575, 32, 1610, 1608, 1580, 1583] = [1604, 1575, 32, 1610, 1608, 1580, 1583]"
  by (simp add: py_strip_def isspace_def)

lemma word_short: "length (py_split [1605, 1602, 1575, 1604]) \<le> 10"
  by (simp add: py_split_def isspace_def)

lemma sample_logged:
  "map_option o_logged
     (generate_chat_response (sample_env (Inl err) [1604, 1575, 32, 1610, 1608, 1580, 1583])
        (Some Map.empty) [1605, 1602, 1575, 1604] None)
   = Some [\<lparr> l_question = [1605, 1602, 1575, 1604], l_session_id = lit ''id-'' @ str_nat 0,
             l_reason = log_reason (Some err) False 0, l_avg_score = 0, l_retrieval_count = 0,
             l_enhanced_query = [1605, 1602, 1575, 1604], l_has_sources = False,
             l_search_error = Some err \<rparr>]"
  by (simp add: generate_chat_response_def answer_and_log_def Let_def sample_env_def arabic_word
      word_no_greeting word_related cannot_answer strip_reply strip_word word_short range_3
      llm_attempt_def average_score_def py_isspace_def isspace_def source_for_check_def)

text \<open>
  Claim C6 at a search that raises an exception with an empty text, in a new session,
  for the question of code points 1605 1602 1575 1604 (a word of \<open>article_terms\<close>) and
  an answer that is one of the cannot-answer phrases: one entry is logged, and its
  reason is \<open>no_results\<close>, not \<open>search_error\<close>.
\<close>

theorem log_reason_empty_error:
  "map_option (\<lambda>out. map l_reason (o_logged out))
     (generate_chat_response (sample_env (Inl []) [1604, 1575, 32, 1610, 1608, 1580, 1583])
        (Some Map.empty) [1605, 1602, 1575, 1604] None)
   = Some [lit ''no_results'']"
  using sample_logged [of "[]"] by (auto simp: log_reason_def truthy_def)

end
